theory Spec2Isabelle
  imports Main "HOL-Library.AList"
begin

section \<open>The source file\<close>

text \<open>
  The repository consists of one file, \<^verbatim>\<open>src/python/rheader/__init__.py\<close>, the
  initializer of the package \<^verbatim>\<open>rheader\<close>. It is transcribed here as the list of
  its physical lines (the last line has no terminating newline). Characters are bytes:
  the two accented letters of the author line are two bytes each in UTF-8.
\<close>

definition source_lines :: \<open>string list\<close> where
  \<open>source_lines =
    [''#!/usr/bin/env python'',
     ''# -*- coding: utf-8 -*-'',
     ''#'',
     ''# @Author: Jos'' @ [CHR 0xC3, CHR 0xA9] @ '' S'' @ [CHR 0xC3, CHR 0xA1]
        @ ''nchez-Gallego (gallegoj@uw.edu)'',
     ''# @Date: 2025-12-09'',
     ''# @Filename: __init__.py'',
     ''# @License: BSD 3-clause (http://www.opensource.org/licenses/BSD-3-Clause)'',
     '''',
     ''from __future__ import annotations'',
     '''',
     ''__all__ = ['',
     ''    "Header",'',
     ''    "Keyword",'',
     ''    "read_header",'',
     ''    "read_header_to_class",'',
     '']'',
     '''',
     '''',
     ''from ._rheader import Header, Keyword, read_header, read_header_to_class'']\<close>

section \<open>Lexical structure\<close>

text \<open>
  The fragment of Python's lexical analysis that the file needs: comments, names and
  keywords, short string literals without escapes, one-character operators and
  delimiters, and the implicit joining of physical lines inside brackets. An input
  outside the fragment is \<open>None\<close>.
\<close>

datatype token = NAME string | KEYWORD string | STRING string | OP char

definition kwlist :: "string list" where
  "kwlist =
    [''False'', ''None'', ''True'', ''and'', ''as'', ''assert'', ''async'', ''await'',
     ''break'', ''class'', ''continue'', ''def'', ''del'', ''elif'', ''else'', ''except'',
     ''finally'', ''for'', ''from'', ''global'', ''if'', ''import'', ''in'', ''is'',
     ''lambda'', ''nonlocal'', ''not'', ''or'', ''pass'', ''raise'', ''return'', ''try'',
     ''while'', ''with'', ''yield'']"

definition is_space :: "char \<Rightarrow> bool" where
  "is_space c \<longleftrightarrow> c = CHR '' '' \<or> c = CHR 0x09 \<or> c = CHR 0x0C"

definition is_name_start :: "char \<Rightarrow> bool" where
  "is_name_start c \<longleftrightarrow>
     (let n = (of_char c :: nat) in (65 \<le> n \<and> n \<le> 90) \<or> (97 \<le> n \<and> n \<le> 122) \<or> n = 95)"

definition is_name_char :: "char \<Rightarrow> bool" where
  "is_name_char c \<longleftrightarrow>
     is_name_start c \<or> (let n = (of_char c :: nat) in 48 \<le> n \<and> n \<le> 57)"

definition is_quote :: \<open>char \<Rightarrow> bool\<close> where
  \<open>is_quote c \<longleftrightarrow> c = CHR ''"'' \<or> c = CHR 0x27\<close>

definition operator_chars :: "string" where
  "operator_chars = ''=[](){},.:;+-*/%<>&|^~@''"

definition name_token :: "string \<Rightarrow> token" where
  "name_token s = (if s \<in> set kwlist then KEYWORD s else NAME s)"

datatype lex_mode = Start | In_name string | In_string char string

text \<open>
  One physical line, character by character. The accumulators of \<open>In_name\<close> and
  \<open>In_string\<close> hold the characters read so far, last first.
\<close>

fun lex_line :: "lex_mode \<Rightarrow> string \<Rightarrow> token list option" where
  "lex_line Start [] = Some []"
| "lex_line (In_name acc) [] = Some [name_token (rev acc)]"
| "lex_line (In_string q acc) [] = None"
| "lex_line Start (c # cs) =
     (if c = CHR ''#'' then Some []
      else if is_space c then lex_line Start cs
      else if is_name_start c then lex_line (In_name [c]) cs
      else if is_quote c then lex_line (In_string c []) cs
      else if c \<in> set operator_chars then map_option ((#) (OP c)) (lex_line Start cs)
      else None)"
| "lex_line (In_name acc) (c # cs) =
     (if is_name_char c then lex_line (In_name (c # acc)) cs
      else if c = CHR ''#'' then Some [name_token (rev acc)]
      else if is_space c then map_option ((#) (name_token (rev acc))) (lex_line Start cs)
      else if is_quote c then
        map_option ((#) (name_token (rev acc))) (lex_line (In_string c []) cs)
      else if c \<in> set operator_chars then
        map_option (\<lambda>ts. name_token (rev acc) # OP c # ts) (lex_line Start cs)
      else None)"
| "lex_line (In_string q acc) (c # cs) =
     (if c = q then map_option ((#) (STRING (rev acc))) (lex_line Start cs)
      else if c = CHR 0x5C then None
      else lex_line (In_string q (c # acc)) cs)"

fun bracket_depth :: "nat \<Rightarrow> token list \<Rightarrow> nat option" where
  "bracket_depth d [] = Some d"
| "bracket_depth d (OP c # ts) =
     (if c \<in> set ''([{'' then bracket_depth (Suc d) ts
      else if c \<in> set '')]}'' then (case d of 0 \<Rightarrow> None | Suc d' \<Rightarrow> bracket_depth d' ts)
      else bracket_depth d ts)"
| "bracket_depth d (_ # ts) = bracket_depth d ts"

text \<open>
  Logical lines: a physical line that holds no token is skipped; inside brackets the
  next physical line continues the logical line; at depth 0 a logical line starts in
  column 0 (an indented one would open a block, and is outside the fragment).
\<close>

definition indented :: "string \<Rightarrow> bool" where
  "indented l = (case l of [] \<Rightarrow> False | c # _ \<Rightarrow> is_space c)"

fun logical_lines :: "nat \<Rightarrow> token list \<Rightarrow> string list \<Rightarrow> token list list option" where
  "logical_lines d acc [] = (if d = 0 \<and> acc = [] then Some [] else None)"
| "logical_lines d acc (l # ls) =
     (case lex_line Start l of
        None \<Rightarrow> None
      | Some ts \<Rightarrow>
          if ts = [] then logical_lines d acc ls
          else if d = 0 \<and> indented l then None
          else (case bracket_depth d ts of
                  None \<Rightarrow> None
                | Some 0 \<Rightarrow> map_option ((#) (acc @ ts)) (logical_lines 0 [] ls)
                | Some (Suc d') \<Rightarrow> logical_lines (Suc d') (acc @ ts) ls))"

section \<open>Abstract syntax\<close>

text \<open>
  The statements of the fragment: \<^verbatim>\<open>from <dots><module> import <names>\<close>, with the
  number of leading dots as the level of a relative import, and the assignment of a
  list display of string literals to a name.
\<close>

datatype expr = StrLit string | ListDisplay "expr list"

datatype stmt = ImportFrom nat string "string list" | Assign string expr

fun parse_name_list :: "token list \<Rightarrow> string list option" where
  "parse_name_list [NAME n] = Some [n]"
| "parse_name_list (NAME n # OP c # ts) =
     (if c = CHR '','' then map_option ((#) n) (parse_name_list ts) else None)"
| "parse_name_list _ = None"

fun parse_string_items :: "token list \<Rightarrow> expr list option" where
  "parse_string_items [OP c] = (if c = CHR '']'' then Some [] else None)"
| "parse_string_items [STRING s, OP c] = (if c = CHR '']'' then Some [StrLit s] else None)"
| "parse_string_items (STRING s # OP c # ts) =
     (if c = CHR '','' then map_option ((#) (StrLit s)) (parse_string_items ts) else None)"
| "parse_string_items _ = None"

fun parse_dots :: "token list \<Rightarrow> nat \<times> token list" where
  "parse_dots (OP c # ts) =
     (if c = CHR ''.'' then (case parse_dots ts of (k, r) \<Rightarrow> (Suc k, r)) else (0, OP c # ts))"
| "parse_dots ts = (0, ts)"

fun parse_dotted :: "token list \<Rightarrow> (string \<times> token list) option" where
  "parse_dotted (NAME n # OP c # ts) =
     (if c = CHR ''.'' then map_option (\<lambda>(m, r). (n @ ''.'' @ m, r)) (parse_dotted ts)
      else None)"
| "parse_dotted (NAME n # ts) = Some (n, ts)"
| "parse_dotted _ = None"

definition parse_import_from :: "token list \<Rightarrow> stmt option" where
  "parse_import_from ts =
     (case parse_dots ts of (level, r) \<Rightarrow>
        (case r of
           KEYWORD k # r' \<Rightarrow>
             if k = ''import'' \<and> 0 < level
             then map_option (ImportFrom level []) (parse_name_list r') else None
         | _ \<Rightarrow>
             (case parse_dotted r of
                Some (m, KEYWORD k # r') \<Rightarrow>
                  if k = ''import''
                  then map_option (ImportFrom level m) (parse_name_list r') else None
              | _ \<Rightarrow> None)))"

fun parse_stmt :: "token list \<Rightarrow> stmt option" where
  "parse_stmt (KEYWORD k # ts) = (if k = ''from'' then parse_import_from ts else None)"
| "parse_stmt (NAME x # OP c # OP b # ts) =
     (if c = CHR ''='' \<and> b = CHR ''[''
      then map_option (\<lambda>es. Assign x (ListDisplay es)) (parse_string_items ts) else None)"
| "parse_stmt _ = None"

definition parse_module :: "string list \<Rightarrow> stmt list option" where
  "parse_module ls =
     (case logical_lines 0 [] ls of None \<Rightarrow> None | Some tss \<Rightarrow> those (map parse_stmt tss))"

text \<open>The module body of \<^verbatim>\<open>rheader/__init__.py\<close>, statement by statement.\<close>

definition rheader_body :: "stmt list" where
  "rheader_body =
    [ImportFrom 0 ''__future__'' [''annotations''],
     Assign ''__all__''
       (ListDisplay
         [StrLit ''Header'', StrLit ''Keyword'', StrLit ''read_header'',
          StrLit ''read_header_to_class'']),
     ImportFrom 1 ''_rheader''
       [''Header'', ''Keyword'', ''read_header'', ''read_header_to_class'']]"

section \<open>Values, namespaces and the import system\<close>

text \<open>
  Objects that the package only passes on are references \<open>PRef\<close>: two names hold the
  same object exactly when they hold the same reference. A namespace (a module's
  \<^verbatim>\<open>__dict__\<close>) keeps its keys in insertion order.
\<close>

datatype pyval =
    PStr string
  | PList "pyval list"
  | PFeature string
  | PModule string
  | PRef nat

type_synonym namespace = "(string \<times> pyval) list"

datatype py_error =
    SyntaxError string
  | ImportError string
  | ModuleNotFoundError string
  | AttributeError string
  | TypeError string
  | Raised string

text \<open>\<^verbatim>\<open>ModuleNotFoundError\<close> is a subclass of \<^verbatim>\<open>ImportError\<close>.\<close>

fun is_ImportError :: "py_error \<Rightarrow> bool" where
  "is_ImportError (ImportError _) = True"
| "is_ImportError (ModuleNotFoundError _) = True"
| "is_ImportError _ = False"

text \<open>
  What the import system finds under an absolute module name: nothing, a module whose
  initialization raises, or a module (not a package) with its attributes. The native
  extension \<^verbatim>\<open>rheader._rheader\<close> is not part of the source; it enters through this
  parameter only.
\<close>

datatype load = Absent | Fails py_error | Loaded namespace

type_synonym world = "string \<Rightarrow> load"

text \<open>The features of \<^verbatim>\<open>__future__.all_feature_names\<close> (CPython 3.7 and later).\<close>

definition all_feature_names :: "string list" where
  "all_feature_names =
    [''nested_scopes'', ''generators'', ''division'', ''absolute_import'',
     ''with_statement'', ''print_function'', ''unicode_literals'', ''barry_as_FLUFL'',
     ''generator_stop'', ''annotations'']"

fun split_dots :: "string \<Rightarrow> string list" where
  "split_dots [] = [[]]"
| "split_dots (c # cs) =
     (if c = CHR ''.'' then [] # split_dots cs
      else (case split_dots cs of [] \<Rightarrow> [[c]] | p # ps \<Rightarrow> (c # p) # ps))"

fun join_dots :: "string list \<Rightarrow> string" where
  "join_dots [] = []"
| "join_dots [p] = p"
| "join_dots (p # ps) = p @ ''.'' @ join_dots ps"

text \<open>
  The absolute name of the module a \<^verbatim>\<open>from\<close> statement names. A relative import
  (level above 0) starts from \<^verbatim>\<open>__package__\<close>, which the import system sets in the
  globals of a module before its body runs.
\<close>

definition resolve_name :: "namespace \<Rightarrow> nat \<Rightarrow> string \<Rightarrow> py_error + string" where
  "resolve_name g level name =
     (if level = 0 then Inr name
      else (case map_of g ''__package__'' of
              Some (PStr package) \<Rightarrow>
                if package = [] then
                  Inl (ImportError ''attempted relative import with no known parent package'')
                else
                  (let bits = split_dots package in
                   if length bits < level then
                     Inl (ImportError ''attempted relative import beyond top-level package'')
                   else
                     (let base = join_dots (take (length bits - (level - 1)) bits)
                      in Inr (if name = [] then base else base @ ''.'' @ name)))
            | _ \<Rightarrow>
                Inl (ImportError ''attempted relative import with no known parent package'')))"

text \<open>
  Loading a submodule of the module that is running binds the submodule in that
  module's namespace, under the last component of its name.
\<close>

definition bind_submodule :: "string \<Rightarrow> namespace \<Rightarrow> namespace" where
  "bind_submodule absname g =
     (let bits = split_dots absname in
      if 2 \<le> length bits \<and> map_of g ''__name__'' = Some (PStr (join_dots (butlast bits)))
      then AList.update (last bits) (PModule absname) g else g)"

text \<open>
  \<^verbatim>\<open>from m import n1, n2, ...\<close> with \<open>m\<close> loaded: each name is read from the
  module and bound, in order; a name the module lacks raises \<^verbatim>\<open>ImportError\<close>.
\<close>

fun import_names :: "namespace \<Rightarrow> string list \<Rightarrow> namespace \<Rightarrow> py_error + namespace" where
  "import_names attrs [] g = Inr g"
| "import_names attrs (n # ns) g =
     (case map_of attrs n of
        None \<Rightarrow> Inl (ImportError n)
      | Some v \<Rightarrow> import_names attrs ns (AList.update n v g))"

fun eval_expr :: "expr \<Rightarrow> pyval" where
  "eval_expr (StrLit s) = PStr s"
| "eval_expr (ListDisplay es) = PList (map eval_expr es)"

text \<open>
  A future statement (\<^verbatim>\<open>from __future__ import ...\<close>) is checked when the module is
  compiled: a feature that is not known is a \<^verbatim>\<open>SyntaxError\<close>. At run time it is an
  import like any other: the module \<^verbatim>\<open>__future__\<close> is asked of the import system and
  the names are read from it. The statement is the first of the body, so the check
  stands where the statement runs.
\<close>

definition unknown_features :: "nat \<Rightarrow> string \<Rightarrow> string list \<Rightarrow> string list" where
  "unknown_features level m names =
     (if level = 0 \<and> m = ''__future__''
      then filter (\<lambda>n. n \<notin> set all_feature_names) names else [])"

fun exec_stmt :: "world \<Rightarrow> stmt \<Rightarrow> namespace \<Rightarrow> py_error + namespace" where
  "exec_stmt w (Assign x e) g = Inr (AList.update x (eval_expr e) g)"
| "exec_stmt w (ImportFrom level m names) g =
     (case unknown_features level m names of
        n # _ \<Rightarrow> Inl (SyntaxError n)
      | [] \<Rightarrow>
          (case resolve_name g level m of
             Inl e \<Rightarrow> Inl e
           | Inr absname \<Rightarrow>
               (case w absname of
                  Absent \<Rightarrow> Inl (ModuleNotFoundError absname)
                | Fails e \<Rightarrow> Inl e
                | Loaded attrs \<Rightarrow> import_names attrs names (bind_submodule absname g))))"

fun exec_module :: "world \<Rightarrow> stmt list \<Rightarrow> namespace \<Rightarrow> py_error + namespace" where
  "exec_module w [] g = Inr g"
| "exec_module w (s # ss) g =
     (case exec_stmt w s g of Inl e \<Rightarrow> Inl e | Inr g' \<Rightarrow> exec_module w ss g')"

text \<open>The globals of a package named \<open>name\<close> when its \<^verbatim>\<open>__init__.py\<close> starts.\<close>

definition module_globals :: "string \<Rightarrow> namespace" where
  "module_globals name = [(''__name__'', PStr name), (''__package__'', PStr name)]"

text \<open>
  \<^verbatim>\<open>import rheader\<close>: the body of the initializer runs in the package's globals; the
  result is the namespace of the package, or the exception that the import raises.
\<close>

definition rheader_init :: "world \<Rightarrow> py_error + namespace" where
  "rheader_init w = exec_module w rheader_body (module_globals ''rheader'')"

section \<open>The public names of a module\<close>

text \<open>
  The public names of a module are those of \<^verbatim>\<open>__all__\<close> when it is defined, and
  otherwise the names of its namespace that do not begin with an underscore.
  \<^verbatim>\<open>from m import *\<close> binds each public name; one that the module lacks raises
  \<^verbatim>\<open>AttributeError\<close>.
\<close>

fun item_name :: "pyval \<Rightarrow> string option" where
  "item_name (PStr s) = Some s"
| "item_name _ = None"

definition is_private :: "string \<Rightarrow> bool" where
  "is_private n = (case n of [] \<Rightarrow> False | c # _ \<Rightarrow> c = CHR ''_'')"

definition public_names :: "namespace \<Rightarrow> py_error + string list" where
  "public_names g =
     (case map_of g ''__all__'' of
        None \<Rightarrow> Inr (filter (\<lambda>n. \<not> is_private n) (map fst g))
      | Some (PList vs) \<Rightarrow>
          (case those (map item_name vs) of
             None \<Rightarrow> Inl (TypeError ''Item in __all__ must be str'')
           | Some ns \<Rightarrow> Inr ns)
      | Some (PStr s) \<Rightarrow> Inr (map (\<lambda>c. [c]) s)
      | Some _ \<Rightarrow> Inl (TypeError ''__all__ is not iterable''))"

fun copy_names :: "namespace \<Rightarrow> string list \<Rightarrow> namespace \<Rightarrow> py_error + namespace" where
  "copy_names g [] target = Inr target"
| "copy_names g (n # ns) target =
     (case map_of g n of
        None \<Rightarrow> Inl (AttributeError n)
      | Some v \<Rightarrow> copy_names g ns (AList.update n v target))"

definition star_import :: "namespace \<Rightarrow> namespace \<Rightarrow> py_error + namespace" where
  "star_import g target =
     (case public_names g of Inl e \<Rightarrow> Inl e | Inr ns \<Rightarrow> copy_names g ns target)"

text \<open>\<^verbatim>\<open>from rheader import *\<close>, into the namespace \<open>target\<close>.\<close>

definition star_import_rheader :: "world \<Rightarrow> namespace \<Rightarrow> py_error + namespace" where
  "star_import_rheader w target =
     (case rheader_init w of Inl e \<Rightarrow> Inl e | Inr g \<Rightarrow> star_import g target)"

section \<open>Auxiliary definitions for the statements\<close>

text \<open>The keywords and the operators of a token list, in order.\<close>

fun keywords_of :: "token list \<Rightarrow> string list" where
  "keywords_of [] = []"
| "keywords_of (KEYWORD k # ts) = k # keywords_of ts"
| "keywords_of (_ # ts) = keywords_of ts"

fun operators_of :: "token list \<Rightarrow> string" where
  "operators_of [] = []"
| "operators_of (OP c # ts) = c # operators_of ts"
| "operators_of (_ # ts) = operators_of ts"

fun is_import :: "stmt \<Rightarrow> bool" where
  "is_import (ImportFrom level m names) = True"
| "is_import (Assign x e) = False"

fun is_all_assignment :: "stmt \<Rightarrow> bool" where
  "is_all_assignment (Assign x e) = (x = ''__all__'')"
| "is_all_assignment (ImportFrom level m names) = False"

text \<open>The numbers of the physical lines that hold a token, counted from \<open>i\<close>.\<close>

fun code_lines :: "nat \<Rightarrow> string list \<Rightarrow> nat list" where
  "code_lines i [] = []"
| "code_lines i (l # ls) =
     (case lex_line Start l of
        Some (t # ts) \<Rightarrow> i # code_lines (Suc i) ls
      | _ \<Rightarrow> code_lines (Suc i) ls)"

text \<open>
  A world cut down to the two modules that the body imports: every other module is
  absent.
\<close>

definition only_imported :: "world \<Rightarrow> world" where
  "only_imported w =
     (\<lambda>n. if n = ''__future__'' \<or> n = ''rheader._rheader'' then w n else Absent)"

text \<open>
  The module \<^verbatim>\<open>__future__\<close> of the standard library, as far as a future statement
  reads it: each feature name holds its feature object.
\<close>

definition future_module :: namespace where
  "future_module = map (\<lambda>n. (n, PFeature n)) all_feature_names"

text \<open>
  Worlds for concrete runs. All but the last hold the standard \<^verbatim>\<open>__future__\<close>: one
  whose native module provides the four names (as the objects 1 to 4), with the
  namespace that the package has after its import there; one whose native module lacks
  \<^verbatim>\<open>Keyword\<close> and \<^verbatim>\<open>read_header_to_class\<close>; one without a native module; and
  one that holds the native module of the first and no \<^verbatim>\<open>__future__\<close>.
\<close>

definition example_native :: namespace where
  "example_native =
     [(''Header'', PRef 1), (''Keyword'', PRef 2), (''read_header'', PRef 3),
      (''read_header_to_class'', PRef 4)]"

definition empty_world :: world where
  "empty_world n = (if n = ''__future__'' then Loaded future_module else Absent)"

definition example_world :: world where
  "example_world n =
     (if n = ''rheader._rheader'' then Loaded example_native else empty_world n)"

definition example_globals :: namespace where
  "example_globals =
     [(''__name__'', PStr ''rheader''), (''__package__'', PStr ''rheader''),
      (''annotations'', PFeature ''annotations''),
      (''__all__'',
       PList [PStr ''Header'', PStr ''Keyword'', PStr ''read_header'',
         PStr ''read_header_to_class'']),
      (''_rheader'', PModule ''rheader._rheader''), (''Header'', PRef 1),
      (''Keyword'', PRef 2), (''read_header'', PRef 3),
      (''read_header_to_class'', PRef 4)]"

definition partial_world :: world where
  "partial_world n =
     (if n = ''rheader._rheader''
      then Loaded [(''Header'', PRef 1), (''read_header'', PRef 3)] else empty_world n)"

definition no_future_world :: world where
  "no_future_world n = (if n = ''rheader._rheader'' then Loaded example_native else Absent)"

section \<open>Reading the source\<close>

lemma source_logical_lines:
  "logical_lines 0 [] source_lines = Some
  [[KEYWORD ''from'', NAME ''__future__'', KEYWORD ''import'', NAME ''annotations''],
   [NAME ''__all__'', OP CHR ''='', OP CHR ''['', STRING ''Header'',
    OP CHR '','', STRING ''Keyword'', OP CHR '','', STRING ''read_header'',
    OP CHR '','', STRING ''read_header_to_class'', OP CHR '','', OP CHR '']''],
   [KEYWORD ''from'', OP CHR ''.'', NAME ''_rheader'', KEYWORD ''import'',
    NAME ''Header'', OP CHR '','', NAME ''Keyword'', OP CHR '','',
    NAME ''read_header'', OP CHR '','', NAME ''read_header_to_class'']]"
  by code_simp

lemma source_parses: "parse_module source_lines = Some rheader_body"
  by (simp add: parse_module_def source_logical_lines parse_import_from_def rheader_body_def)

lemma source_tokens:
  "\<exists>tss. logical_lines 0 [] source_lines = Some tss \<and>
      map keywords_of tss = [[''from'', ''import''], [], [''from'', ''import'']] \<and>
      operators_of (concat tss) = ''=[,,,,].,,,''"
  unfolding source_logical_lines by simp

lemma source_length: "length source_lines = 19"
  by (simp add: source_lines_def)

lemma source_code_lines: "code_lines 1 source_lines = [9, 11, 12, 13, 14, 15, 16, 19]"
  by code_simp

lemma rheader_body_kinds:
  "length rheader_body = 3" "list_all (\<lambda>s. is_import s \<or> is_all_assignment s) rheader_body"
  by (simp_all add: rheader_body_def)

section \<open>Running the initializer\<close>

lemma exec_module_single: "exec_module w [s] g = exec_stmt w s g"
  by (cases "exec_stmt w s g") simp_all

lemma import_names_single:
  "import_names attrs [n] g =
     (case map_of attrs n of None \<Rightarrow> Inl (ImportError n)
      | Some v \<Rightarrow> Inr (AList.update n v g))"
  by (simp split: option.splits)

text \<open>
  The assignment cannot fail and does not consult the world; the run is decided by what
  the import system finds under \<^verbatim>\<open>__future__\<close> and under \<^verbatim>\<open>rheader._rheader\<close>.
\<close>

lemma rheader_init_unfold:
  "rheader_init w =
     (case w ''__future__'' of
        Absent \<Rightarrow> Inl (ModuleNotFoundError ''__future__'')
      | Fails e \<Rightarrow> Inl e
      | Loaded fut \<Rightarrow>
          (case map_of fut ''annotations'' of
             None \<Rightarrow> Inl (ImportError ''annotations'')
           | Some a \<Rightarrow>
               (case w ''rheader._rheader'' of
                  Absent \<Rightarrow> Inl (ModuleNotFoundError ''rheader._rheader'')
                | Fails e \<Rightarrow> Inl e
                | Loaded attrs \<Rightarrow>
                    import_names attrs
                      [''Header'', ''Keyword'', ''read_header'', ''read_header_to_class'']
                      [(''__name__'', PStr ''rheader''), (''__package__'', PStr ''rheader''),
                       (''annotations'', a),
                       (''__all__'',
                        PList [PStr ''Header'', PStr ''Keyword'', PStr ''read_header'',
                          PStr ''read_header_to_class'']),
                       (''_rheader'', PModule ''rheader._rheader'')])))"
  by (simp add: rheader_init_def rheader_body_def module_globals_def resolve_name_def
      bind_submodule_def all_feature_names_def unknown_features_def exec_module_single
      del: exec_module.simps(2) import_names.simps
      add: exec_module.simps(2) [of _ _ "_ # _"] import_names_single
      split: load.splits option.splits)

lemma import_names_lookup:
  "import_names attrs ns g = Inr g' \<Longrightarrow>
     map_of g' k = (if k \<in> set ns then map_of attrs k else map_of g k)"
proof (induction ns arbitrary: g)
  case Nil
  then show ?case by simp
next
  case (Cons n ns)
  then show ?case
    by (auto simp: update_conv' split: option.splits)
qed

lemma import_names_Inr_iff:
  "(\<exists>g'. import_names attrs ns g = Inr g') \<longleftrightarrow> (\<forall>n\<in>set ns. map_of attrs n \<noteq> None)"
  by (induction ns arbitrary: g) (auto split: option.splits)

lemma import_names_Inl:
  "import_names attrs ns g = Inl e \<Longrightarrow> \<exists>n\<in>set ns. e = ImportError n \<and> map_of attrs n = None"
  by (induction ns arbitrary: g) (auto split: option.splits)

lemma copy_names_Inr:
  "\<forall>n\<in>set ns. map_of g n \<noteq> None \<Longrightarrow>
   \<exists>t. copy_names g ns target = Inr t \<and>
       (\<forall>k. map_of t k = (if k \<in> set ns then map_of g k else map_of target k))"
proof (induction ns arbitrary: target)
  case Nil
  then show ?case by simp
next
  case (Cons n ns)
  then obtain v where v: "map_of g n = Some v" by auto
  from Cons.prems have "\<forall>n\<in>set ns. map_of g n \<noteq> None" by simp
  from Cons.IH [OF this, of "AList.update n v target"] v
  show ?case by (auto simp: update_conv')
qed

text \<open>What a successful run went through.\<close>

lemma rheader_init_Inr:
  assumes "rheader_init w = Inr g"
  obtains fut a attrs where "w ''__future__'' = Loaded fut"
    and "map_of fut ''annotations'' = Some a"
    and "w ''rheader._rheader'' = Loaded attrs"
    and "import_names attrs [''Header'', ''Keyword'', ''read_header'', ''read_header_to_class'']
            [(''__name__'', PStr ''rheader''), (''__package__'', PStr ''rheader''),
             (''annotations'', a),
             (''__all__'', PList [PStr ''Header'', PStr ''Keyword'', PStr ''read_header'',
                PStr ''read_header_to_class'']),
             (''_rheader'', PModule ''rheader._rheader'')] = Inr g"
proof (cases "w ''__future__''")
  case Absent
  with assms show ?thesis by (simp add: rheader_init_unfold)
next
  case (Fails e)
  with assms show ?thesis by (simp add: rheader_init_unfold)
next
  case (Loaded fut)
  note f = this
  show ?thesis
  proof (cases "map_of fut ''annotations''")
    case None
    with assms f show ?thesis by (simp add: rheader_init_unfold)
  next
    case (Some a)
    note a = this
    show ?thesis
    proof (cases "w ''rheader._rheader''")
      case Absent
      with assms f a show ?thesis by (simp add: rheader_init_unfold)
    next
      case (Fails e)
      with assms f a show ?thesis by (simp add: rheader_init_unfold)
    next
      case (Loaded attrs)
      with assms f a that show ?thesis by (simp add: rheader_init_unfold)
    qed
  qed
qed

lemma rheader_init_all:
  assumes "rheader_init w = Inr g"
  shows "map_of g ''__all__'' =
    Some (PList [PStr ''Header'', PStr ''Keyword'', PStr ''read_header'',
                PStr ''read_header_to_class''])"
proof -
  from assms obtain fut a attrs where
    "import_names attrs [''Header'', ''Keyword'', ''read_header'', ''read_header_to_class'']
            [(''__name__'', PStr ''rheader''), (''__package__'', PStr ''rheader''),
             (''annotations'', a),
             (''__all__'', PList [PStr ''Header'', PStr ''Keyword'', PStr ''read_header'',
                PStr ''read_header_to_class'']),
             (''_rheader'', PModule ''rheader._rheader'')] = Inr g"
    by (rule rheader_init_Inr)
  from import_names_lookup [OF this, of "''__all__''"] show ?thesis by simp
qed

lemma rheader_init_public_names:
  assumes "rheader_init w = Inr g"
  shows "public_names g = Inr [''Header'', ''Keyword'', ''read_header'', ''read_header_to_class'']"
  using rheader_init_all [OF assms] by (simp add: public_names_def)

lemma rheader_init_bound:
  assumes "rheader_init w = Inr g" and "w ''rheader._rheader'' = Loaded attrs"
    and "n \<in> set [''Header'', ''Keyword'', ''read_header'', ''read_header_to_class'']"
  shows "\<exists>v. map_of attrs n = Some v \<and> map_of g n = Some v"
proof -
  from assms(1) obtain fut a attrs' where l: "w ''rheader._rheader'' = Loaded attrs'"
    and i': "import_names attrs' [''Header'', ''Keyword'', ''read_header'', ''read_header_to_class'']
            [(''__name__'', PStr ''rheader''), (''__package__'', PStr ''rheader''),
             (''annotations'', a),
             (''__all__'', PList [PStr ''Header'', PStr ''Keyword'', PStr ''read_header'',
                PStr ''read_header_to_class'']),
             (''_rheader'', PModule ''rheader._rheader'')] = Inr g"
    by (rule rheader_init_Inr)
  from l assms(2) have "attrs' = attrs" by simp
  with i' have i: "import_names attrs [''Header'', ''Keyword'', ''read_header'', ''read_header_to_class'']
            [(''__name__'', PStr ''rheader''), (''__package__'', PStr ''rheader''),
             (''annotations'', a),
             (''__all__'', PList [PStr ''Header'', PStr ''Keyword'', PStr ''read_header'',
                PStr ''read_header_to_class'']),
             (''_rheader'', PModule ''rheader._rheader'')] = Inr g"
    by simp
  then have "\<forall>n\<in>set [''Header'', ''Keyword'', ''read_header'', ''read_header_to_class''].
      map_of attrs n \<noteq> None"
    using import_names_Inr_iff by blast
  with assms(3) obtain v where v: "map_of attrs n = Some v" by blast
  from import_names_lookup [OF i, of n] assms(3) v show ?thesis by simp
qed

text \<open>
  Besides the four names, the namespace of the package holds \<^verbatim>\<open>__all__\<close>, the
  object that \<^verbatim>\<open>__future__\<close> holds under \<^verbatim>\<open>annotations\<close>, and the submodule
  \<^verbatim>\<open>_rheader\<close>; since \<^verbatim>\<open>__all__\<close> is defined, none of them is a public name.
\<close>

lemma rheader_init_other_bindings:
  assumes "rheader_init w = Inr g"
  shows "\<exists>fut a. w ''__future__'' = Loaded fut \<and> map_of fut ''annotations'' = Some a \<and>
           map_of g ''annotations'' = Some a"
    and "map_of g ''_rheader'' = Some (PModule ''rheader._rheader'')"
proof -
  from assms obtain fut a attrs where f: "w ''__future__'' = Loaded fut"
    and a: "map_of fut ''annotations'' = Some a"
    and i: "import_names attrs [''Header'', ''Keyword'', ''read_header'', ''read_header_to_class'']
            [(''__name__'', PStr ''rheader''), (''__package__'', PStr ''rheader''),
             (''annotations'', a),
             (''__all__'', PList [PStr ''Header'', PStr ''Keyword'', PStr ''read_header'',
                PStr ''read_header_to_class'']),
             (''_rheader'', PModule ''rheader._rheader'')] = Inr g"
    by (rule rheader_init_Inr)
  from import_names_lookup [OF i, of "''annotations''"]
  have "map_of g ''annotations'' = Some a" by simp
  with f a
  show "\<exists>fut a. w ''__future__'' = Loaded fut \<and> map_of fut ''annotations'' = Some a \<and>
           map_of g ''annotations'' = Some a"
    by blast
  from import_names_lookup [OF i, of "''_rheader''"]
  show "map_of g ''_rheader'' = Some (PModule ''rheader._rheader'')" by simp
qed

lemma future_module_annotations:
  "map_of future_module ''annotations'' = Some (PFeature ''annotations'')"
  by (simp add: future_module_def all_feature_names_def)

lemma example_world_init: "rheader_init example_world = Inr example_globals"
  by (simp add: rheader_init_unfold example_world_def empty_world_def
      future_module_annotations example_native_def example_globals_def)

lemma star_import_generic:
  assumes "public_names g = Inr ns" and "\<forall>n\<in>set ns. map_of g n \<noteq> None"
  shows "\<exists>t. star_import g target = Inr t \<and>
           (\<forall>k. map_of t k = (if k \<in> set ns then map_of g k else map_of target k))"
  using copy_names_Inr [OF assms(2), of target] assms(1) by (simp add: star_import_def)

lemma rheader_init_bound_all:
  assumes "rheader_init w = Inr g"
  shows "\<forall>n\<in>set [''Header'', ''Keyword'', ''read_header'', ''read_header_to_class''].
          map_of g n \<noteq> None"
proof
  fix n
  assume n: "n \<in> set [''Header'', ''Keyword'', ''read_header'', ''read_header_to_class'']"
  from assms obtain attrs where l: "w ''rheader._rheader'' = Loaded attrs"
    by (rule rheader_init_Inr)
  from rheader_init_bound [OF assms l n] obtain v where "map_of g n = Some v" by blast
  then show "map_of g n \<noteq> None" by simp
qed

lemma rheader_init_star_import:
  assumes "rheader_init w = Inr g"
  shows "\<exists>t. star_import g target = Inr t \<and>
           (\<forall>k. map_of t k =
              (if k \<in> set [''Header'', ''Keyword'', ''read_header'', ''read_header_to_class'']
               then map_of g k else map_of target k))"
  by (rule star_import_generic [OF rheader_init_public_names [OF assms]
        rheader_init_bound_all [OF assms]])

lemma distinct_exported:
  "distinct [''Header'', ''Keyword'', ''read_header'', ''read_header_to_class'']"
  by simp


lemma example_star_import:
  "star_import example_globals [] =
     Inr [(''Header'', PRef 1), (''Keyword'', PRef 2), (''read_header'', PRef 3),
          (''read_header_to_class'', PRef 4)]"
  by (simp add: star_import_def public_names_def example_globals_def)

lemma empty_world_init:
  "rheader_init empty_world = Inl (ModuleNotFoundError ''rheader._rheader'')"
  by (simp add: rheader_init_unfold empty_world_def future_module_annotations)

text \<open>
  Where the import system has no \<^verbatim>\<open>__future__\<close>, the first statement raises and the
  native module is never asked for.
\<close>

lemma no_future_world_init:
  "rheader_init no_future_world = Inl (ModuleNotFoundError ''__future__'')"
  by (simp add: rheader_init_unfold no_future_world_def)

lemma rheader_init_bound_Some:
  assumes "rheader_init w = Inr g"
  shows "\<forall>n\<in>set [''Header'', ''Keyword'', ''read_header'', ''read_header_to_class''].
          \<exists>v. map_of g n = Some v"
proof
  fix n
  assume n: "n \<in> set [''Header'', ''Keyword'', ''read_header'', ''read_header_to_class'']"
  from assms obtain fut a attrs where l: "w ''rheader._rheader'' = Loaded attrs"
    by (rule rheader_init_Inr)
  from rheader_init_bound [OF assms l n] show "\<exists>v. map_of g n = Some v" by blast
qed

lemma import_names_fails:
  assumes "\<exists>n\<in>set ns. map_of attrs n = None"
  shows "\<exists>n\<in>set ns. import_names attrs ns g = Inl (ImportError n)"
proof (cases "import_names attrs ns g")
  case (Inl e)
  from import_names_Inl [OF Inl] show ?thesis using Inl by blast
next
  case (Inr g')
  then have "\<forall>n\<in>set ns. map_of attrs n \<noteq> None"
    using import_names_Inr_iff [of attrs ns g] by blast
  with assms show ?thesis by blast
qed

section \<open>The public surface\<close>

text \<open>
  Claim C1. After a successful import of the package, its public names (those that
  \<^verbatim>\<open>__all__\<close> lists) are exactly the four names \<^verbatim>\<open>Header\<close>, \<^verbatim>\<open>Keyword\<close>,
  \<^verbatim>\<open>read_header\<close> and \<^verbatim>\<open>read_header_to_class\<close>: a name is public if and only if it
  is one of the four, and each public name is bound in the namespace of the package.
\<close>

theorem public_surface_exact:
  "rheader_init w = Inr g \<Longrightarrow>
     \<exists>ns. public_names g = Inr ns \<and>
       (\<forall>n. n \<in> set ns \<longleftrightarrow>
          n = ''Header'' \<or> n = ''Keyword'' \<or> n = ''read_header'' \<or> n = ''read_header_to_class'') \<and>
       (\<forall>n\<in>set ns. \<exists>v. map_of g n = Some v)"
proof -
  assume a: "rheader_init w = Inr g"
  show ?thesis
  proof (intro exI conjI)
    show "public_names g =
        Inr [''Header'', ''Keyword'', ''read_header'', ''read_header_to_class'']"
      by (rule rheader_init_public_names [OF a])
    show "\<forall>n. n \<in> set [''Header'', ''Keyword'', ''read_header'', ''read_header_to_class''] \<longleftrightarrow>
        n = ''Header'' \<or> n = ''Keyword'' \<or> n = ''read_header'' \<or> n = ''read_header_to_class''"
      by simp
    show "\<forall>n\<in>set [''Header'', ''Keyword'', ''read_header'', ''read_header_to_class''].
        \<exists>v. map_of g n = Some v"
      by (rule rheader_init_bound_Some [OF a])
  qed
qed

theorem public_surface_exact_witness:
  "rheader_init example_world = Inr example_globals \<and>
   (\<exists>ns. public_names example_globals = Inr ns \<and>
       (\<forall>n. n \<in> set ns \<longleftrightarrow>
          n = ''Header'' \<or> n = ''Keyword'' \<or> n = ''read_header'' \<or> n = ''read_header_to_class'') \<and>
       (\<forall>n\<in>set ns. \<exists>v. map_of example_globals n = Some v))"
  by (rule conjI [OF example_world_init public_surface_exact [OF example_world_init]])

section \<open>Re-export\<close>

text \<open>
  Claim C2. Each of the four names is a pure re-export: after a successful import the
  native module \<^verbatim>\<open>rheader._rheader\<close> is loaded, and for each of the four names the
  package's namespace holds the very object that the native module holds under that
  name.
\<close>

theorem reexport_same_object:
  "rheader_init w = Inr g \<Longrightarrow>
     \<exists>attrs. w ''rheader._rheader'' = Loaded attrs \<and>
       (\<forall>n\<in>set [''Header'', ''Keyword'', ''read_header'', ''read_header_to_class''].
          \<exists>v. map_of attrs n = Some v \<and> map_of g n = Some v)"
proof -
  assume a: "rheader_init w = Inr g"
  then obtain attrs where l: "w ''rheader._rheader'' = Loaded attrs"
    by (rule rheader_init_Inr)
  with a rheader_init_bound show ?thesis by blast
qed

theorem reexport_same_object_witness:
  "\<exists>g. rheader_init example_world = Inr g \<and>
      map_of g ''Header'' = Some (PRef 1) \<and> map_of g ''Keyword'' = Some (PRef 2) \<and>
      map_of g ''read_header'' = Some (PRef 3) \<and>
      map_of g ''read_header_to_class'' = Some (PRef 4)"
  using reexport_same_object [OF example_world_init] example_world_init
  by (simp add: example_world_def example_native_def example_globals_def)

section \<open>Star import\<close>

text \<open>
  Claim C3. The star-import surface agrees with the import list. After a successful
  import, \<^verbatim>\<open>__all__\<close> lists exactly \<^verbatim>\<open>Header\<close>, \<^verbatim>\<open>Keyword\<close>,
  \<^verbatim>\<open>read_header\<close>, \<^verbatim>\<open>read_header_to_class\<close>, in that order and without
  duplicates; each of them is bound in the namespace of the package; and
  \<^verbatim>\<open>from rheader import *\<close> succeeds and binds exactly those four names, to the
  objects the package holds, leaving every other name of the target as it was. An
  exception of \<^verbatim>\<open>from rheader import *\<close> is therefore always the exception of
  importing the package itself, never an \<^verbatim>\<open>AttributeError\<close> for a missing entry
  of \<^verbatim>\<open>__all__\<close>.
\<close>

theorem star_import_consistent:
  "(rheader_init w = Inr g \<longrightarrow>
      (\<exists>ns. public_names g = Inr ns \<and>
         ns = [''Header'', ''Keyword'', ''read_header'', ''read_header_to_class''] \<and>
         distinct ns \<and>
         (\<forall>n\<in>set ns. map_of g n \<noteq> None) \<and>
         (\<exists>t. star_import g target = Inr t \<and>
            (\<forall>k. map_of t k = (if k \<in> set ns then map_of g k else map_of target k)))))
   \<and> (star_import_rheader w target = Inl e \<longrightarrow> rheader_init w = Inl e)"
proof (intro conjI impI)
  assume a: "rheader_init w = Inr g"
  show "\<exists>ns. public_names g = Inr ns \<and>
         ns = [''Header'', ''Keyword'', ''read_header'', ''read_header_to_class''] \<and>
         distinct ns \<and>
         (\<forall>n\<in>set ns. map_of g n \<noteq> None) \<and>
         (\<exists>t. star_import g target = Inr t \<and>
            (\<forall>k. map_of t k = (if k \<in> set ns then map_of g k else map_of target k)))"
    using rheader_init_public_names [OF a] distinct_exported rheader_init_bound_all [OF a]
      rheader_init_star_import [OF a, of target]
    by blast
next
  assume a: "star_import_rheader w target = Inl e"
  show "rheader_init w = Inl e"
  proof (cases "rheader_init w")
    case (Inl e')
    with a show ?thesis by (simp add: star_import_rheader_def)
  next
    case (Inr g')
    from rheader_init_star_import [OF Inr, of target] obtain t
      where "star_import g' target = Inr t" by blast
    with a Inr show ?thesis by (simp add: star_import_rheader_def)
  qed
qed

theorem star_import_consistent_witness:
  "rheader_init example_world = Inr example_globals \<and>
   (\<exists>t. star_import example_globals [] = Inr t \<and>
      map_of t ''Header'' = Some (PRef 1) \<and>
      map_of t ''read_header_to_class'' = Some (PRef 4) \<and>
      map_of t ''annotations'' = None \<and> map_of t ''_rheader'' = None) \<and>
   star_import_rheader empty_world [] = Inl (ModuleNotFoundError ''rheader._rheader'') \<and>
   rheader_init empty_world = Inl (ModuleNotFoundError ''rheader._rheader'')"
proof -
  from star_import_consistent [of example_world example_globals "[]"] example_world_init
  obtain t where t: "star_import example_globals [] = Inr t"
    and m: "\<forall>k. map_of t k =
       (if k \<in> set [''Header'', ''Keyword'', ''read_header'', ''read_header_to_class'']
        then map_of example_globals k else map_of [] k)"
    by blast
  from m have 1: "map_of t ''Header'' = Some (PRef 1)"
    and 2: "map_of t ''read_header_to_class'' = Some (PRef 4)"
    and 3: "map_of t ''annotations'' = None" and 4: "map_of t ''_rheader'' = None"
    by (simp_all add: example_globals_def)
  have e: "star_import_rheader empty_world [] = Inl (ModuleNotFoundError ''rheader._rheader'')"
    by (simp add: star_import_rheader_def empty_world_init)
  from star_import_consistent [of empty_world _ "[]" "ModuleNotFoundError ''rheader._rheader''"] e
  have 5: "rheader_init empty_world = Inl (ModuleNotFoundError ''rheader._rheader'')"
    by blast
  from example_world_init t 1 2 3 4 e 5 show ?thesis by blast
qed

section \<open>Failure of the import\<close>

text \<open>
  Claim C5. Where the standard module \<^verbatim>\<open>__future__\<close> is loaded and provides
  \<^verbatim>\<open>annotations\<close> (the first statement of the body imports it), importing the
  package succeeds if and only if the native submodule \<^verbatim>\<open>rheader._rheader\<close> is
  loaded and provides all four names. If the submodule is absent, or is loaded and
  lacks one of the four names, the import raises \<^verbatim>\<open>ImportError\<close> (for an absent
  module its subclass \<^verbatim>\<open>ModuleNotFoundError\<close>): nothing catches it and nothing
  stands in for it.
\<close>

theorem import_succeeds_iff:
  assumes "w ''__future__'' = Loaded fut" and "map_of fut ''annotations'' = Some a"
  shows
  "((\<exists>g. rheader_init w = Inr g) \<longleftrightarrow>
      (\<exists>attrs. w ''rheader._rheader'' = Loaded attrs \<and>
         (\<forall>n\<in>set [''Header'', ''Keyword'', ''read_header'', ''read_header_to_class''].
            map_of attrs n \<noteq> None)))
   \<and> (w ''rheader._rheader'' = Absent \<or>
        (\<exists>attrs. w ''rheader._rheader'' = Loaded attrs \<and>
           (\<exists>n\<in>set [''Header'', ''Keyword'', ''read_header'', ''read_header_to_class''].
              map_of attrs n = None))
      \<longrightarrow> (\<exists>e. rheader_init w = Inl e \<and> is_ImportError e))"
proof (cases "w ''rheader._rheader''")
  case Absent
  with assms have "rheader_init w = Inl (ModuleNotFoundError ''rheader._rheader'')"
    by (simp add: rheader_init_unfold)
  with Absent show ?thesis by simp
next
  case (Fails e)
  with assms have "rheader_init w = Inl e" by (simp add: rheader_init_unfold)
  with Fails show ?thesis by simp
next
  case (Loaded attrs)
  define names where "names = [''Header'', ''Keyword'', ''read_header'', ''read_header_to_class'']"
  define g0 where "g0 = [(''__name__'', PStr ''rheader''), (''__package__'', PStr ''rheader''),
             (''annotations'', a),
             (''__all__'', PList [PStr ''Header'', PStr ''Keyword'', PStr ''read_header'',
                PStr ''read_header_to_class'']),
             (''_rheader'', PModule ''rheader._rheader'')]"
  have u: "rheader_init w = import_names attrs names g0"
    using Loaded assms by (simp add: rheader_init_unfold names_def g0_def)
  have ok: "(\<exists>g. rheader_init w = Inr g) \<longleftrightarrow> (\<forall>n\<in>set names. map_of attrs n \<noteq> None)"
    unfolding u by (rule import_names_Inr_iff)
  have bad: "\<exists>e. rheader_init w = Inl e \<and> is_ImportError e"
    if "\<exists>n\<in>set names. map_of attrs n = None"
  proof -
    from import_names_fails [OF that, of g0] obtain n
      where "rheader_init w = Inl (ImportError n)" unfolding u by blast
    then show ?thesis by simp
  qed
  from ok bad Loaded show ?thesis unfolding names_def by auto
qed

theorem import_succeeds_iff_witness:
  "(\<exists>g. rheader_init example_world = Inr g) \<and>
   (\<exists>e. rheader_init empty_world = Inl e \<and> is_ImportError e) \<and>
   (\<exists>e. rheader_init partial_world = Inl e \<and> is_ImportError e)"
proof -
  note fa = future_module_annotations
  have f1: "example_world ''__future__'' = Loaded future_module"
    by (simp add: example_world_def empty_world_def)
  have f2: "empty_world ''__future__'' = Loaded future_module"
    by (simp add: empty_world_def)
  have f3: "partial_world ''__future__'' = Loaded future_module"
    by (simp add: partial_world_def empty_world_def)
  have a: "example_world ''rheader._rheader'' = Loaded example_native"
    by (simp add: example_world_def)
  have b: "\<forall>n\<in>set [''Header'', ''Keyword'', ''read_header'', ''read_header_to_class''].
      map_of example_native n \<noteq> None"
    by (simp add: example_native_def)
  from import_succeeds_iff [of example_world future_module "PFeature ''annotations''"] f1 fa a b
  have 1: "\<exists>g. rheader_init example_world = Inr g" by blast
  have c: "empty_world ''rheader._rheader'' = Absent"
    by (simp add: empty_world_def)
  from import_succeeds_iff [of empty_world future_module "PFeature ''annotations''"] f2 fa c
  have 2: "\<exists>e. rheader_init empty_world = Inl e \<and> is_ImportError e" by blast
  have d: "partial_world ''rheader._rheader'' =
      Loaded [(''Header'', PRef 1), (''read_header'', PRef 3)]"
    by (simp add: partial_world_def)
  have e: "\<exists>n\<in>set [''Header'', ''Keyword'', ''read_header'', ''read_header_to_class''].
      map_of [(''Header'', PRef 1), (''read_header'', PRef 3)] n = None"
    by simp
  from import_succeeds_iff [of partial_world future_module "PFeature ''annotations''"] f3 fa d e
  have 3: "\<exists>e. rheader_init partial_world = Inl e \<and> is_ImportError e" by blast
  from 1 2 3 show ?thesis by blast
qed

section \<open>The initializer is glue\<close>

lemma rheader_init_only_imported: "rheader_init w = rheader_init (only_imported w)"
  by (simp add: rheader_init_unfold only_imported_def)

text \<open>
  Claim C4. The initializer has no algorithm, data structure or control flow of its
  own. Its text parses to the three statements of \<open>rheader_body\<close>: two imports and the
  assignment of a list of string literals to \<^verbatim>\<open>__all__\<close>. The only keywords in it
  are \<^verbatim>\<open>from\<close> and \<^verbatim>\<open>import\<close> (so no \<^verbatim>\<open>def\<close>, \<^verbatim>\<open>class\<close>,
  \<^verbatim>\<open>lambda\<close>, \<^verbatim>\<open>if\<close>, \<^verbatim>\<open>for\<close>, \<^verbatim>\<open>while\<close>, \<^verbatim>\<open>try\<close> or \<^verbatim>\<open>with\<close>), and
  the only operators and delimiters are \<^verbatim>\<open>=\<close>, the brackets of the list, commas and
  the dot of the relative import (so no call and no arithmetic). Running it computes
  nothing beyond its two imports, of \<^verbatim>\<open>__future__\<close> and of \<^verbatim>\<open>rheader._rheader\<close>:
  the result is the same in a world where every other module is absent.
\<close>

theorem initializer_is_glue:
  "parse_module source_lines = Some rheader_body \<and>
   (\<exists>tss. logical_lines 0 [] source_lines = Some tss \<and>
      map keywords_of tss = [[''from'', ''import''], [], [''from'', ''import'']] \<and>
      operators_of (concat tss) = ''=[,,,,].,,,'') \<and>
   rheader_init w = rheader_init (only_imported w)"
proof (intro conjI)
  show "parse_module source_lines = Some rheader_body"
    by (rule source_parses)
  show "\<exists>tss. logical_lines 0 [] source_lines = Some tss \<and>
      map keywords_of tss = [[''from'', ''import''], [], [''from'', ''import'']] \<and>
      operators_of (concat tss) = ''=[,,,,].,,,''"
    by (rule source_tokens)
  show "rheader_init w = rheader_init (only_imported w)"
    by (rule rheader_init_only_imported)
qed

theorem initializer_is_glue_witness:
  "rheader_init (only_imported example_world) = Inr example_globals \<and>
   rheader_init (only_imported empty_world) = Inl (ModuleNotFoundError ''rheader._rheader'') \<and>
   rheader_init (only_imported no_future_world) = Inl (ModuleNotFoundError ''__future__'')"
  using initializer_is_glue [of example_world] initializer_is_glue [of empty_world]
    initializer_is_glue [of no_future_world]
    example_world_init empty_world_init no_future_world_init
  by simp

section \<open>The size of the source\<close>

text \<open>
  Claim C7. The file has 19 lines. Eight of them hold code (lines 9, 11 to 16 and 19);
  the others are comments or blank. The code is three statements, each of them an
  import or the assignment to \<^verbatim>\<open>__all__\<close>.
\<close>

theorem source_is_19_lines_of_reexport:
  "length source_lines = 19 \<and>
   code_lines 1 source_lines = [9, 11, 12, 13, 14, 15, 16, 19] \<and>
   (\<exists>body. parse_module source_lines = Some body \<and> length body = 3 \<and>
      list_all (\<lambda>s. is_import s \<or> is_all_assignment s) body)"
proof (intro conjI)
  show "length source_lines = 19"
    by (rule source_length)
  show "code_lines 1 source_lines = [9, 11, 12, 13, 14, 15, 16, 19]"
    by (rule source_code_lines)
  have "parse_module source_lines = Some rheader_body \<and> length rheader_body = 3 \<and>
      list_all (\<lambda>s. is_import s \<or> is_all_assignment s) rheader_body"
    by (intro conjI source_parses rheader_body_kinds)
  then show "\<exists>body. parse_module source_lines = Some body \<and> length body = 3 \<and>
      list_all (\<lambda>s. is_import s \<or> is_all_assignment s) body"
    by (rule exI)
qed

end
